theory Spec2Isabelle
  imports Main
begin

section \<open>The wallet instance lifecycle manager of walletManager.ts\<close>

text \<open>
  The module keeps one wallet instance per process in three module-level variables and
  talks to four collaborators: the metadata store (the document \<^verbatim>\<open>wallets/master\<close>), blob
  storage, the wallet engine and the remote wallet's HTTP API. The embedding is by explicit
  state passing. A \<open>world\<close> holds the module variables, the metadata document, the clock
  that \<^verbatim>\<open>Date.now()\<close> reads and the trace of every call made to a collaborator. What the
  collaborators answer during one call is a parameter, the record \<open>env\<close>. Every function
  of the module takes the world and returns its result with the new world; the pair
  \<^verbatim>\<open>[value | undefined, undefined | ServiceError]\<close> that the functions return is a pair
  of options. Calls of \<^verbatim>\<open>console.log\<close> are left out, and so are the two settings
  \<^verbatim>\<open>updateConfig\<close> and \<^verbatim>\<open>enableAutoOptimization\<close> of a wallet that is being opened.
  A call that the source guards with \<^verbatim>\<open>try\<close> can fail, as \<open>env\<close> says; a call that it
  does not guard is taken to return. One call runs at a time: the interleaving of two
  requests is outside the model.

  The sources hold two variants of the file. The theory follows the later one, which the
  specification adopts: it has \<^verbatim>\<open>masterWalletLastSaveAt\<close>, the rewind on start and the
  drop of a stalled node. The earlier variant does not compare \<^verbatim>\<open>lastSaveAt\<close>, returns
  from the sync wait at once only when the wallet height has reached the network height,
  settles the timer's promise with \<^verbatim>\<open>false\<close> without a second look at the heights, and
  leaves the singleton in place when the sync wait fails.
\<close>

subsection \<open>Data\<close>

record WalletInfo =
  location :: string
  backupsDirectory :: string
  lastSaveAt :: int
  lastBackupAt :: int

record ServiceConfig =
  daemonHost :: string
  daemonPort :: int
  waitForSyncTimeout :: int
  serviceHalted :: bool

datatype ServiceError = ServiceError (errorCode: string) (errorMessage: "string option")

type_synonym 'a outcome = "'a option \<times> ServiceError option"

text \<open>
  A wallet handle: the identity of the \<^verbatim>\<open>WalletBackend\<close> object and the daemon it was
  constructed with, which is what \<^verbatim>\<open>getDaemonConnectionInfo()\<close> reports.
\<close>

record WalletBackend =
  walletId :: nat
  connHost :: string
  connPort :: int

record ServiceWallet =
  wallet :: WalletBackend
  serviceConfig :: ServiceConfig

record WalletSyncInfo =
  walletHeight :: int
  networkHeight :: int
  heightDelta :: int

text \<open>
  Modelled from the spec: the type \<^verbatim>\<open>WalletStatus\<close> of \<^verbatim>\<open>shared/types\<close> is not among
  the sources; the spec gives it the fields \<^verbatim>\<open>{started, daemonHost, uptime}\<close>. The host
  and the uptime are optional: the code tests \<^verbatim>\<open>status.uptime\<close> for truthiness, and a
  wallet that is not started has no host.
\<close>

record WalletStatus =
  started :: bool
  statusDaemonHost :: "string option"
  uptime :: "int option"

text \<open>Every call to a collaborator, and every assignment to the singleton, leaves an event.\<close>

datatype event =
    FirestoreGet
  | FirestoreCreate WalletInfo
  | FirestoreUpdateLastSaveAt int
  | BucketDownload string
  | BucketSave string string
  | WriteKeyFile string
  | MirrorSave string string
  | UnlinkKeyFile
  | CreateWallet nat string int
  | OpenWallet nat string int
  | StartWallet nat
  | RewindWallet nat int
  | StopWallet nat
  | RemoveAllListeners nat
  | AssignMasterWallet "nat option"
  | OnSync nat
  | SetTimeout int
  | TimerFired
  | DropCurrentNode string
  | GetServiceConfig
  | HttpGetStatus string
  | HttpPostStart string string int

record world =
  masterWallet :: "WalletBackend option"
  masterWalletStartedAt :: "int option"
  masterWalletLastSaveAt :: "int option"
  walletDoc :: "WalletInfo option"
  clock :: int
  nextWalletId :: nat
  trace :: "event list"

text \<open>
  The answers of the collaborators during one call, and the constants of the module
  \<^verbatim>\<open>constants\<close>, which is not among the sources. \<open>latency\<close> is the time a call takes;
  \<open>syncStatus e i t\<close> is what \<^verbatim>\<open>getSyncStatus()\<close> of wallet \<open>i\<close> returns at time \<open>t\<close>;
  \<open>syncEmission\<close> says when the wallet emits \<^verbatim>\<open>sync\<close> during a wait: before the timer
  fires (after the given delay), while the timer's callback awaits \<^verbatim>\<open>dropCurrentNode\<close>
  (when it awaits it at all), or not before the timer's promise is settled.
\<close>

datatype syncEmission = BeforeTimer int | DuringDrop | NotInTime

record env =
  latency :: "event \<Rightarrow> nat"
  defaultWalletLocation :: string
  defaultWalletBackupsDirectory :: string
  gcpServiceAccountFilename :: string
  gcpWalletFilename :: string
  firestoreErrorText :: string
  blobDownload :: "string option"
  decrypts :: "string \<Rightarrow> bool"
  syncStatus :: "nat \<Rightarrow> int \<Rightarrow> int \<times> int \<times> int"
  syncEmission :: syncEmission
  serviceConfigResult :: "ServiceConfig outcome"
  encryptWalletToString :: "nat \<Rightarrow> string"
  primarySaveOk :: bool
  keyFileDownload :: "string option"
  keyFileWriteOk :: bool
  mirrorSaveOk :: bool
  keyFileUnlinkOk :: bool
  createWalletError :: "string option"
  startWalletError :: "string option"
  mnemonicSeed :: "string option"
  walletErrorText :: string
  statusResponse :: "WalletStatus option"
  startResponse :: "WalletStatus option"

subsection \<open>Primitives\<close>

definition logEvent :: "event \<Rightarrow> world \<Rightarrow> world" where
  "logEvent ev w = w\<lparr>trace := trace w @ [ev]\<rparr>"

text \<open>An awaited call to a collaborator: it is recorded, and time passes.\<close>

definition external :: "env \<Rightarrow> event \<Rightarrow> world \<Rightarrow> world" where
  "external e ev w = w\<lparr>clock := clock w + int (latency e ev), trace := trace w @ [ev]\<rparr>"

definition elapse :: "int \<Rightarrow> world \<Rightarrow> world" where
  "elapse ms w = w\<lparr>clock := clock w + max 0 ms\<rparr>"

definition setMasterWallet :: "WalletBackend option \<Rightarrow> world \<Rightarrow> world" where
  "setMasterWallet v w =
     w\<lparr>masterWallet := v, trace := trace w @ [AssignMasterWallet (map_option walletId v)]\<rparr>"

definition stopWallet :: "env \<Rightarrow> WalletBackend \<Rightarrow> world \<Rightarrow> world" where
  "stopWallet e wl w = external e (StopWallet (walletId wl)) w"

definition removeAllListeners :: "WalletBackend \<Rightarrow> world \<Rightarrow> world" where
  "removeAllListeners wl w = logEvent (RemoveAllListeners (walletId wl)) w"

text \<open>
  The metadata store keeps the one document. \<^verbatim>\<open>create\<close> fails when the document
  exists; \<^verbatim>\<open>update\<close> is only called after a \<^verbatim>\<open>get\<close> has found the document.
\<close>

definition firestoreCreate :: "env \<Rightarrow> WalletInfo \<Rightarrow> world \<Rightarrow> bool \<times> world" where
  "firestoreCreate e doc w =
     (case walletDoc w of
        Some _ \<Rightarrow> (False, external e (FirestoreCreate doc) w)
      | None \<Rightarrow> (True, (external e (FirestoreCreate doc) w)\<lparr>walletDoc := Some doc\<rparr>))"

definition firestoreUpdateLastSaveAt :: "env \<Rightarrow> int \<Rightarrow> world \<Rightarrow> world" where
  "firestoreUpdateLastSaveAt e t w =
     (external e (FirestoreUpdateLastSaveAt t) w)
       \<lparr>walletDoc := map_option (\<lambda>d. d\<lparr>lastSaveAt := t\<rparr>) (walletDoc w)\<rparr>"

subsection \<open>Loading the wallet\<close>

definition getMasterWalletInfo :: "env \<Rightarrow> world \<Rightarrow> WalletInfo option \<times> world" where
  "getMasterWalletInfo e w = (walletDoc w, external e FirestoreGet w)"

definition getMasterWalletString :: "env \<Rightarrow> world \<Rightarrow> string option \<times> world" where
  "getMasterWalletString e w =
     (case getMasterWalletInfo e w of
        (None, w1) \<Rightarrow> (None, w1)
      | (Some masterWalletInfo, w1) \<Rightarrow>
          (blobDownload e, external e (BucketDownload (location masterWalletInfo)) w1))"

definition getWalletSyncInfo :: "env \<Rightarrow> WalletBackend \<Rightarrow> world \<Rightarrow> WalletSyncInfo" where
  "getWalletSyncInfo e wl w =
     (case syncStatus e (walletId wl) (clock w) of
        (wHeight, _, nHeight) \<Rightarrow>
          \<lparr>walletHeight = wHeight, networkHeight = nHeight, heightDelta = nHeight - wHeight\<rparr>)"

definition rewindWallet :: "env \<Rightarrow> WalletBackend \<Rightarrow> int \<Rightarrow> world \<Rightarrow> world" where
  "rewindWallet e wl distance w =
     (case syncStatus e (walletId wl) (clock w) of
        (wHeight, _, _) \<Rightarrow> external e (RewindWallet (walletId wl) (wHeight - distance)) w)"

definition startWalletFromString ::
  "env \<Rightarrow> string \<Rightarrow> string \<Rightarrow> int \<Rightarrow> world \<Rightarrow> WalletBackend outcome \<times> world" where
  "startWalletFromString e encryptedString dHost dPort w =
     (if \<not> decrypts e encryptedString
      then ((None, Some (ServiceError ''service/master-wallet-file''
                           (Some ''Failed to decrypt wallet string''))), w)
      else
        let wl = \<lparr>walletId = nextWalletId w, connHost = dHost, connPort = dPort\<rparr>;
            w1 = logEvent (OpenWallet (walletId wl) dHost dPort)
                   (w\<lparr>nextWalletId := Suc (nextWalletId w)\<rparr>);
            w2 = external e (StartWallet (walletId wl)) w1;
            w3 = w2\<lparr>masterWalletStartedAt := Some (clock w2)\<rparr>
        in ((Some wl, None), w3))"

subsection \<open>The registry: getMasterWallet\<close>

text \<open>
  The three tests of lines 138 to 153. \<^verbatim>\<open>masterWalletStartedAt && ...\<close> is false for
  \<^verbatim>\<open>undefined\<close> and for \<open>0\<close>.
\<close>

definition restartNeeded :: "ServiceConfig \<Rightarrow> WalletInfo \<Rightarrow> WalletBackend \<Rightarrow> world \<Rightarrow> bool" where
  "restartNeeded cfg walletInfo mw w =
     (let r0 = False;
          r1 = (if connHost mw \<noteq> daemonHost cfg \<or> connPort mw \<noteq> daemonPort cfg
                then True else r0);
          r2 = (if (case masterWalletStartedAt w of
                      None \<Rightarrow> False
                    | Some s \<Rightarrow> s \<noteq> 0 \<and> clock w \<ge> s + 1000 * 60 * 10)
                then True else r1);
          r3 = (if masterWalletLastSaveAt w \<noteq> Some (lastSaveAt walletInfo)
                then True else r2)
      in r3)"

text \<open>
  \<^verbatim>\<open>getMasterWallet\<close>, lines 122 to 212. The old instance of line 175 is the one read at
  line 133: nothing assigns the singleton in between. \<^verbatim>\<open>!encryptedString\<close> holds for
  \<^verbatim>\<open>null\<close> and for the empty string.
\<close>

definition getMasterWallet ::
  "env \<Rightarrow> ServiceConfig \<Rightarrow> bool \<Rightarrow> int \<Rightarrow> world \<Rightarrow> WalletBackend outcome \<times> world" where
  "getMasterWallet e cfg forceRestart rewindDistanceOnStart w =
     (case getMasterWalletInfo e w of
        (None, w1) \<Rightarrow> ((None, Some (ServiceError ''service/master-wallet-info'' None)), w1)
      | (Some walletInfo, w1) \<Rightarrow>
          (case masterWallet w1 of
             Some oldWalletInstance \<Rightarrow>
               if restartNeeded cfg walletInfo oldWalletInstance w1 \<or> forceRestart then
                 (case getMasterWalletString e w1 of
                    (None, w2) \<Rightarrow>
                      ((None, Some (ServiceError ''service/master-wallet-file'' None)), w2)
                  | (Some encryptedString, w2) \<Rightarrow>
                      if encryptedString = [] then
                        ((None, Some (ServiceError ''service/master-wallet-file'' None)), w2)
                      else
                        (case startWalletFromString e encryptedString
                                (daemonHost cfg) (daemonPort cfg) w2 of
                           ((None, err), w3) \<Rightarrow> ((None, err), w3)
                         | ((Some newWallet, _), w3) \<Rightarrow>
                             let w4 = (if rewindDistanceOnStart > 0
                                       then rewindWallet e newWallet rewindDistanceOnStart w3
                                       else w3);
                                 w5 = setMasterWallet (Some newWallet) w4;
                                 w6 = w5\<lparr>masterWalletLastSaveAt := Some (lastSaveAt walletInfo)\<rparr>;
                                 w7 = stopWallet e oldWalletInstance w6;
                                 w8 = removeAllListeners oldWalletInstance w7
                             in ((masterWallet w8, None), w8)))
               else ((masterWallet w1, None), w1)
           | None \<Rightarrow>
               (case getMasterWalletString e w1 of
                  (None, w2) \<Rightarrow>
                    ((None, Some (ServiceError ''service/master-wallet-file'' None)), w2)
                | (Some encryptedString, w2) \<Rightarrow>
                    if encryptedString = [] then
                      ((None, Some (ServiceError ''service/master-wallet-file'' None)), w2)
                    else
                      (case startWalletFromString e encryptedString
                              (daemonHost cfg) (daemonPort cfg) w2 of
                         ((None, err), w3) \<Rightarrow> ((None, err), w3)
                       | ((Some wl, err), w3) \<Rightarrow>
                           let w4 = (if rewindDistanceOnStart > 0
                                     then rewindWallet e wl rewindDistanceOnStart w3
                                     else w3);
                               w5 = setMasterWallet (Some wl) w4;
                               w6 = w5\<lparr>masterWalletLastSaveAt := Some (lastSaveAt walletInfo)\<rparr>
                           in ((Some wl, err), w6)))))"

subsection \<open>The sync wait: waitForWalletSync\<close>

definition dropCurrentNode :: "env \<Rightarrow> string \<Rightarrow> world \<Rightarrow> world" where
  "dropCurrentNode e currentNode w = external e (DropCurrentNode currentNode) w"

text \<open>
  The callback of the timer, lines 344 to 362. It returns the value \<^verbatim>\<open>synced\<close> that its
  promise is settled with, and whether the listener of lines 335 to 341 has settled the
  other promise in the meantime, which can only happen at the one \<^verbatim>\<open>await\<close>.
\<close>

definition timeoutCallback ::
  "env \<Rightarrow> WalletBackend \<Rightarrow> WalletSyncInfo \<Rightarrow> world \<Rightarrow> (bool \<times> bool) \<times> world" where
  "timeoutCallback e wl syncInfoStart w =
     (let syncInfoAfterWait = getWalletSyncInfo e wl w;
          synced = (heightDelta syncInfoAfterWait \<le> 2);
          blocksProcessed = walletHeight syncInfoAfterWait - walletHeight syncInfoStart
      in if \<not> synced then
           (if blocksProcessed < 2
            then ((synced, syncEmission e = DuringDrop), dropCurrentNode e (connHost wl) w)
            else ((synced, False), w))
         else ((synced, False), w))"

text \<open>
  \<^verbatim>\<open>Promise.race([p1, p2])\<close>: the promise settled first gives the result. The timer is
  never cancelled; when the listener wins before the timer fires, the callback of the timer
  has not run when the call returns.
\<close>

definition waitForWalletSync :: "env \<Rightarrow> WalletBackend \<Rightarrow> int \<Rightarrow> world \<Rightarrow> bool \<times> world" where
  "waitForWalletSync e wl timeout w =
     (let syncInfoStart = getWalletSyncInfo e wl w in
      if heightDelta syncInfoStart \<le> 2 then (True, w)
      else
        let w1 = logEvent (OnSync (walletId wl)) w;
            w2 = logEvent (SetTimeout timeout) w1
        in (case syncEmission e of
              BeforeTimer d \<Rightarrow> (True, elapse d w2)
            | _ \<Rightarrow>
                (case timeoutCallback e wl syncInfoStart
                        (logEvent TimerFired (elapse timeout w2)) of
                   ((synced, overtaken), w3) \<Rightarrow> (if overtaken then True else synced, w3))))"

subsection \<open>The service wallet: getServiceWallet\<close>

definition getServiceConfig :: "env \<Rightarrow> world \<Rightarrow> ServiceConfig outcome \<times> world" where
  "getServiceConfig e w = (serviceConfigResult e, external e GetServiceConfig w)"

definition getServiceWallet :: "env \<Rightarrow> bool \<Rightarrow> world \<Rightarrow> ServiceWallet outcome \<times> world" where
  "getServiceWallet e waitForSync w =
     (case getServiceConfig e w of
        ((None, configError), w1) \<Rightarrow> ((None, configError), w1)
      | ((Some cfg, _), w1) \<Rightarrow>
          if serviceHalted cfg then
            ((None, Some (ServiceError ''service/service-halted'' None)), w1)
          else
            (case getMasterWallet e cfg False 40 w1 of
               ((None, openError), w2) \<Rightarrow> ((None, openError), w2)
             | ((Some wl, _), w2) \<Rightarrow>
                 let sw = \<lparr>wallet = wl, serviceConfig = cfg\<rparr> in
                 if \<not> waitForSync then ((Some sw, None), w2)
                 else
                   (case waitForWalletSync e wl (waitForSyncTimeout cfg) w2 of
                      (synced, w3) \<Rightarrow>
                        if \<not> synced then
                          (case masterWallet w3 of
                             Some mw \<Rightarrow>
                               ((None, Some (ServiceError ''service/master-wallet-sync-failed'' None)),
                                setMasterWallet None (removeAllListeners mw (stopWallet e mw w3)))
                           | None \<Rightarrow>
                               ((None, Some (ServiceError ''service/master-wallet-sync-failed'' None)),
                                w3))
                        else ((Some sw, None), w3))))"

subsection \<open>Persistence: saveMasterWallet\<close>

definition saveWalletFirebase :: "env \<Rightarrow> string \<Rightarrow> string \<Rightarrow> world \<Rightarrow> bool \<times> world" where
  "saveWalletFirebase e filepath encryptedWallet w =
     (primarySaveOk e, external e (BucketSave filepath encryptedWallet) w)"

text \<open>
  Lines 409 to 437: whatever throws inside the \<^verbatim>\<open>try\<close> gives \<^verbatim>\<open>false\<close>, and the steps
  after it are not reached.
\<close>

definition saveWalletAppEngine :: "env \<Rightarrow> string \<Rightarrow> world \<Rightarrow> bool \<times> world" where
  "saveWalletAppEngine e encryptedWallet w =
     (let w1 = external e (BucketDownload (gcpServiceAccountFilename e)) w in
      case keyFileDownload e of
        None \<Rightarrow> (False, w1)
      | Some keyJson \<Rightarrow>
          let w2 = logEvent (WriteKeyFile keyJson) w1 in
          if \<not> keyFileWriteOk e then (False, w2)
          else
            let w3 = external e (MirrorSave (gcpWalletFilename e) encryptedWallet) w2 in
            if \<not> mirrorSaveOk e then (False, w3)
            else
              let w4 = logEvent UnlinkKeyFile w3 in
              if \<not> keyFileUnlinkOk e then (False, w4) else (True, w4))"

text \<open>
  Lines 367 to 394. \<^verbatim>\<open>Promise.all\<close> starts both writes and waits for both; neither of
  the two promises rejects. The trace lists the calls of the first write before those of the
  second. The document read at line 368 is still there at line 390.
\<close>

definition saveMasterWallet :: "env \<Rightarrow> WalletBackend \<Rightarrow> world \<Rightarrow> int outcome \<times> world" where
  "saveMasterWallet e wl w =
     (case getMasterWalletInfo e w of
        (None, w1) \<Rightarrow> ((None, Some (ServiceError ''service/master-wallet-info'' None)), w1)
      | (Some masterWalletInfo, w1) \<Rightarrow>
          let encryptedString = encryptWalletToString e (walletId wl);
              timestamp = clock w1
          in (case saveWalletFirebase e (location masterWalletInfo) encryptedString w1 of
                (saveResult0, w2) \<Rightarrow>
                  (case saveWalletAppEngine e encryptedString w2 of
                     (saveResult1, w3) \<Rightarrow>
                       let w4 = (if saveResult0
                                 then firestoreUpdateLastSaveAt e (clock w3) w3 else w3)
                       in ((Some timestamp, None), w4))))"

subsection \<open>Creation: createMasterWallet\<close>

text \<open>
  Lines 23 to 71. \<^verbatim>\<open>!saveDate\<close> holds for \<^verbatim>\<open>undefined\<close> and for \<open>0\<close>, \<^verbatim>\<open>!seed\<close> for
  \<^verbatim>\<open>undefined\<close> and for the empty string.
\<close>

definition createMasterWallet :: "env \<Rightarrow> ServiceConfig \<Rightarrow> world \<Rightarrow> string outcome \<times> world" where
  "createMasterWallet e cfg w =
     (let newDoc = \<lparr>location = defaultWalletLocation e,
                    backupsDirectory = defaultWalletBackupsDirectory e,
                    lastSaveAt = clock w, lastBackupAt = 0\<rparr>
      in case firestoreCreate e newDoc w of
           (False, w1) \<Rightarrow>
             ((None, Some (ServiceError ''service/master-wallet-info''
                             (Some (''Error creating WalletInfo: '' @ firestoreErrorText e)))), w1)
         | (True, w1) \<Rightarrow>
             (case createWalletError e of
                Some err \<Rightarrow> ((None, Some (ServiceError ''service/unknown-error'' (Some err))), w1)
              | None \<Rightarrow>
                  let wl = \<lparr>walletId = nextWalletId w1, connHost = daemonHost cfg,
                            connPort = daemonPort cfg\<rparr>;
                      w2 = logEvent (CreateWallet (walletId wl) (daemonHost cfg) (daemonPort cfg))
                             (w1\<lparr>nextWalletId := Suc (nextWalletId w1)\<rparr>);
                      w3 = setMasterWallet (Some wl) w2;
                      w4 = external e (StartWallet (walletId wl)) w3
                  in (case startWalletError e of
                        Some err \<Rightarrow>
                          ((None, Some (ServiceError ''service/unknown-error'' (Some err))), w4)
                      | None \<Rightarrow>
                          (case saveMasterWallet e wl (elapse (20 * 1000) w4) of
                             ((saveDate, saveError), w5) \<Rightarrow>
                               if saveDate = None \<or> saveDate = Some 0 then ((None, saveError), w5)
                               else
                                 (case mnemonicSeed e of
                                    None \<Rightarrow>
                                      ((None, Some (ServiceError ''service/master-wallet-info''
                                                      (Some (walletErrorText e)))), w5)
                                  | Some seed \<Rightarrow>
                                      if seed = [] then
                                        ((None, Some (ServiceError ''service/master-wallet-info''
                                                        (Some (walletErrorText e)))), w5)
                                      else ((Some seed, None), w5))))))"

subsection \<open>The remote wallet: warmupAppEngineWallet\<close>

definition getCloudWalletStatus :: "env \<Rightarrow> string \<Rightarrow> world \<Rightarrow> WalletStatus option \<times> world" where
  "getCloudWalletStatus e jwtToken w = (statusResponse e, external e (HttpGetStatus jwtToken) w)"

definition startAppEngineWallet :: "env \<Rightarrow> string \<Rightarrow> ServiceConfig \<Rightarrow> world \<Rightarrow> bool \<times> world" where
  "startAppEngineWallet e jwtToken cfg w =
     (let w1 = external e (HttpPostStart jwtToken (daemonHost cfg) (daemonPort cfg)) w in
      case startResponse e of
        None \<Rightarrow> (False, w1)
      | Some walletStatus \<Rightarrow> (started walletStatus, w1))"

text \<open>
  The decision of lines 581 to 593. \<^verbatim>\<open>status.uptime && status.uptime > maxUptime\<close> is
  false for \<^verbatim>\<open>undefined\<close> and for \<open>0\<close>.
\<close>

definition restartRequired :: "WalletStatus \<Rightarrow> ServiceConfig \<Rightarrow> bool" where
  "restartRequired status cfg =
     (let maxUptime = 1000 * 60 * 60 * 4;
          r0 = False
      in if \<not> started status then True
         else
           let r1 = (if statusDaemonHost status \<noteq> Some (daemonHost cfg) then True else r0);
               r2 = (if (case uptime status of
                           None \<Rightarrow> False
                         | Some u \<Rightarrow> u \<noteq> 0 \<and> u > maxUptime)
                     then True else r1)
           in r2)"

definition warmupAppEngineWallet :: "env \<Rightarrow> string \<Rightarrow> ServiceConfig \<Rightarrow> world \<Rightarrow> bool \<times> world" where
  "warmupAppEngineWallet e jwtToken cfg w =
     (case getCloudWalletStatus e jwtToken w of
        (None, w1) \<Rightarrow> (False, w1)
      | (Some status, w1) \<Rightarrow>
          if \<not> restartRequired status cfg then (True, w1)
          else startAppEngineWallet e jwtToken cfg w1)"

subsection \<open>A sample run\<close>

definition sampleConfig :: ServiceConfig where
  "sampleConfig = \<lparr>daemonHost = ''node-a'', daemonPort = 11898,
                    waitForSyncTimeout = 5000, serviceHalted = False\<rparr>"

definition sampleWallet :: WalletBackend where
  "sampleWallet = \<lparr>walletId = 0, connHost = ''node-a'', connPort = 11898\<rparr>"

definition sampleInfo :: WalletInfo where
  "sampleInfo = \<lparr>location = ''wallets/master.bin'', backupsDirectory = ''backups'',
                  lastSaveAt = 100, lastBackupAt = 0\<rparr>"

definition sampleWorld :: world where
  "sampleWorld = \<lparr>masterWallet = Some sampleWallet, masterWalletStartedAt = Some 1000,
                   masterWalletLastSaveAt = Some 100, walletDoc = Some sampleInfo,
                   clock = 301000, nextWalletId = 1, trace = []\<rparr>"

definition sampleEnv :: env where
  "sampleEnv = \<lparr>latency = (\<lambda>_. 5),
                 defaultWalletLocation = ''wallets/master.bin'',
                 defaultWalletBackupsDirectory = ''backups'',
                 gcpServiceAccountFilename = ''key.json'',
                 gcpWalletFilename = ''wallet.bin'',
                 firestoreErrorText = ''ALREADY_EXISTS'',
                 blobDownload = Some ''blob'',
                 decrypts = (\<lambda>s. s = ''blob''),
                 syncStatus = (\<lambda>i t. if t < 305000 then (90, 90, 100) else (91, 91, 100)),
                 syncEmission = NotInTime,
                 serviceConfigResult = (Some sampleConfig, None),
                 encryptWalletToString = (\<lambda>_. ''blob''),
                 primarySaveOk = True,
                 keyFileDownload = Some ''key'',
                 keyFileWriteOk = True,
                 mirrorSaveOk = True,
                 keyFileUnlinkOk = True,
                 createWalletError = None,
                 startWalletError = None,
                 mnemonicSeed = Some ''seed words'',
                 walletErrorText = ''no seed'',
                 statusResponse = Some \<lparr>started = True, statusDaemonHost = Some ''node-a'',
                                         uptime = Some 1000\<rparr>,
                 startResponse = Some \<lparr>started = True, statusDaemonHost = Some ''node-a'',
                                        uptime = Some 0\<rparr>\<rparr>"

subsection \<open>Reading a trace\<close>

text \<open>
  The functions only ever append to the trace, so the events of a call are what follows the
  trace it started from. \<open>masterHistory m evs\<close> lists the value of the singleton after each
  event of \<open>evs\<close>, starting from \<open>m\<close>. \<open>onlyAfter a b evs\<close> says that \<open>b\<close> does not occur in
  \<open>evs\<close> before the first \<open>a\<close>, and not at all when there is no \<open>a\<close>.
\<close>

definition eventsSince :: "world \<Rightarrow> world \<Rightarrow> event list" where
  "eventsSince w w' = drop (length (trace w)) (trace w')"

definition masterAfter :: "nat option \<Rightarrow> event \<Rightarrow> nat option" where
  "masterAfter m ev = (case ev of AssignMasterWallet v \<Rightarrow> v | _ \<Rightarrow> m)"

fun masterHistory :: "nat option \<Rightarrow> event list \<Rightarrow> nat option list" where
  "masterHistory m [] = []"
| "masterHistory m (ev # evs) = masterAfter m ev # masterHistory (masterAfter m ev) evs"

definition onlyAfter :: "event \<Rightarrow> event \<Rightarrow> event list \<Rightarrow> bool" where
  "onlyAfter a b evs = (b \<notin> set (takeWhile (\<lambda>x. x \<noteq> a) evs))"

definition isStartCall :: "event \<Rightarrow> bool" where
  "isStartCall ev = (case ev of HttpPostStart _ _ _ \<Rightarrow> True | _ \<Rightarrow> False)"

definition startIssued :: "world \<Rightarrow> world \<Rightarrow> bool" where
  "startIssued w w' = list_ex isStartCall (eventsSince w w')"

text \<open>
  The restart decision of the warm-up as the specification words it, with the peer compared
  by host and port. The status carries no port, so the port the remote wallet is bound to
  (the one of the start request it last served) is a parameter.
\<close>

definition claimedRestartRequired :: "int \<Rightarrow> WalletStatus \<Rightarrow> ServiceConfig \<Rightarrow> bool" where
  "claimedRestartRequired boundPort status cfg =
     (\<not> started status \<or>
      statusDaemonHost status \<noteq> Some (daemonHost cfg) \<or> boundPort \<noteq> daemonPort cfg \<or>
      (case uptime status of None \<Rightarrow> False | Some u \<Rightarrow> u > 1000 * 60 * 60 * 4))"

section \<open>Properties\<close>

subsection \<open>What the primitives change\<close>

lemma logEvent_fields [simp]:
  "masterWallet (logEvent ev w) = masterWallet w"
  "masterWalletStartedAt (logEvent ev w) = masterWalletStartedAt w"
  "masterWalletLastSaveAt (logEvent ev w) = masterWalletLastSaveAt w"
  "walletDoc (logEvent ev w) = walletDoc w"
  "clock (logEvent ev w) = clock w"
  "nextWalletId (logEvent ev w) = nextWalletId w"
  "trace (logEvent ev w) = trace w @ [ev]"
  by (simp_all add: logEvent_def)

lemma external_fields [simp]:
  "masterWallet (external e ev w) = masterWallet w"
  "masterWalletStartedAt (external e ev w) = masterWalletStartedAt w"
  "masterWalletLastSaveAt (external e ev w) = masterWalletLastSaveAt w"
  "walletDoc (external e ev w) = walletDoc w"
  "clock (external e ev w) = clock w + int (latency e ev)"
  "nextWalletId (external e ev w) = nextWalletId w"
  "trace (external e ev w) = trace w @ [ev]"
  by (simp_all add: external_def)

lemma elapse_fields [simp]:
  "masterWallet (elapse ms w) = masterWallet w"
  "masterWalletStartedAt (elapse ms w) = masterWalletStartedAt w"
  "masterWalletLastSaveAt (elapse ms w) = masterWalletLastSaveAt w"
  "walletDoc (elapse ms w) = walletDoc w"
  "clock (elapse ms w) = clock w + max 0 ms"
  "nextWalletId (elapse ms w) = nextWalletId w"
  "trace (elapse ms w) = trace w"
  by (simp_all add: elapse_def)

lemma setMasterWallet_fields [simp]:
  "masterWallet (setMasterWallet v w) = v"
  "masterWalletStartedAt (setMasterWallet v w) = masterWalletStartedAt w"
  "masterWalletLastSaveAt (setMasterWallet v w) = masterWalletLastSaveAt w"
  "walletDoc (setMasterWallet v w) = walletDoc w"
  "clock (setMasterWallet v w) = clock w"
  "nextWalletId (setMasterWallet v w) = nextWalletId w"
  "trace (setMasterWallet v w) = trace w @ [AssignMasterWallet (map_option walletId v)]"
  by (simp_all add: setMasterWallet_def)

lemma stopWallet_fields [simp]:
  "masterWallet (stopWallet e wl w) = masterWallet w"
  "masterWalletStartedAt (stopWallet e wl w) = masterWalletStartedAt w"
  "masterWalletLastSaveAt (stopWallet e wl w) = masterWalletLastSaveAt w"
  "walletDoc (stopWallet e wl w) = walletDoc w"
  "nextWalletId (stopWallet e wl w) = nextWalletId w"
  "trace (stopWallet e wl w) = trace w @ [StopWallet (walletId wl)]"
  by (simp_all add: stopWallet_def)

lemma removeAllListeners_fields [simp]:
  "masterWallet (removeAllListeners wl w) = masterWallet w"
  "masterWalletStartedAt (removeAllListeners wl w) = masterWalletStartedAt w"
  "masterWalletLastSaveAt (removeAllListeners wl w) = masterWalletLastSaveAt w"
  "walletDoc (removeAllListeners wl w) = walletDoc w"
  "clock (removeAllListeners wl w) = clock w"
  "nextWalletId (removeAllListeners wl w) = nextWalletId w"
  "trace (removeAllListeners wl w) = trace w @ [RemoveAllListeners (walletId wl)]"
  by (simp_all add: removeAllListeners_def)

lemma rewindWallet_fields [simp]:
  "masterWallet (rewindWallet e wl d w) = masterWallet w"
  "masterWalletStartedAt (rewindWallet e wl d w) = masterWalletStartedAt w"
  "masterWalletLastSaveAt (rewindWallet e wl d w) = masterWalletLastSaveAt w"
  "walletDoc (rewindWallet e wl d w) = walletDoc w"
  "nextWalletId (rewindWallet e wl d w) = nextWalletId w"
  "trace (rewindWallet e wl d w) =
     trace w @ [RewindWallet (walletId wl) (fst (syncStatus e (walletId wl) (clock w)) - d)]"
  by (simp_all add: rewindWallet_def split: prod.splits)

lemma dropCurrentNode_fields [simp]:
  "masterWallet (dropCurrentNode e h w) = masterWallet w"
  "walletDoc (dropCurrentNode e h w) = walletDoc w"
  "trace (dropCurrentNode e h w) = trace w @ [DropCurrentNode h]"
  by (simp_all add: dropCurrentNode_def)

lemma firestoreUpdateLastSaveAt_fields [simp]:
  "masterWallet (firestoreUpdateLastSaveAt e t w) = masterWallet w"
  "walletDoc (firestoreUpdateLastSaveAt e t w) = map_option (\<lambda>d. d\<lparr>lastSaveAt := t\<rparr>) (walletDoc w)"
  "trace (firestoreUpdateLastSaveAt e t w) = trace w @ [FirestoreUpdateLastSaveAt t]"
  by (simp_all add: firestoreUpdateLastSaveAt_def)

lemma eventsSince_append [simp]: "trace w' = trace w @ evs \<Longrightarrow> eventsSince w w' = evs"
  by (simp add: eventsSince_def)

lemmas registry_defs =
  getMasterWallet_def getMasterWalletInfo_def getMasterWalletString_def
  startWalletFromString_def restartNeeded_def Let_def

lemmas wait_defs =
  waitForWalletSync_def timeoutCallback_def getWalletSyncInfo_def Let_def

lemmas save_defs =
  saveMasterWallet_def saveWalletFirebase_def saveWalletAppEngine_def
  getMasterWalletInfo_def Let_def

lemmas warmup_defs =
  warmupAppEngineWallet_def getCloudWalletStatus_def startAppEngineWallet_def
  restartRequired_def Let_def

lemmas sample_defs =
  sampleEnv_def sampleWorld_def sampleConfig_def sampleWallet_def sampleInfo_def

subsection \<open>Calls only append to the trace\<close>

lemma getMasterWallet_appends:
  "(case getMasterWallet e cfg forceRestart rewindDistanceOnStart w of
      (r, w') \<Rightarrow> trace w' = trace w @ eventsSince w w')"
  by (simp add: registry_defs eventsSince_def split: option.splits prod.splits)

lemma waitForWalletSync_appends:
  "(case waitForWalletSync e wl timeout w of
      (r, w') \<Rightarrow> trace w' = trace w @ eventsSince w w')"
  by (simp add: wait_defs eventsSince_def split: syncEmission.splits prod.splits)

lemma saveMasterWallet_appends:
  "(case saveMasterWallet e wl w of (r, w') \<Rightarrow> trace w' = trace w @ eventsSince w w')"
  by (simp add: save_defs eventsSince_def split: option.splits prod.splits)

lemma warmupAppEngineWallet_appends:
  "(case warmupAppEngineWallet e jwtToken cfg w of
      (r, w') \<Rightarrow> trace w' = trace w @ eventsSince w w')"
  by (simp add: warmup_defs eventsSince_def split: option.splits prod.splits)

text \<open>The singleton after a call is the last entry of the history read from its events.\<close>

lemma getMasterWallet_history:
  "(case getMasterWallet e cfg forceRestart rewindDistanceOnStart w of
      (r, w') \<Rightarrow>
        map_option walletId (masterWallet w') =
          last (map_option walletId (masterWallet w)
                # masterHistory (map_option walletId (masterWallet w)) (eventsSince w w')))"
  by (simp add: registry_defs eventsSince_def masterAfter_def split: option.splits prod.splits)

subsection \<open>The registry\<close>

text \<open>
  C1: when an instance exists, its daemon host and port are those of the configuration,
  less than ten minutes have passed since \<open>masterWalletStartedAt\<close> at the time of the test
  (which is made after the metadata has been read), the persisted \<open>lastSaveAt\<close> is the
  recorded baseline and \<open>forceRestart\<close> is false, \<open>getMasterWallet\<close> returns the existing
  instance. The only call it makes is the read of the metadata: no blob is fetched, no
  wallet is opened or stopped, and the three variables of the singleton are as they were.
\<close>

theorem getMasterWallet_reuses_instance:
  assumes "masterWallet w = Some mw"
      and "walletDoc w = Some walletInfo"
      and "connHost mw = daemonHost cfg"
      and "connPort mw = daemonPort cfg"
      and "masterWalletStartedAt w = Some s"
      and "clock w + int (latency e FirestoreGet) < s + 1000 * 60 * 10"
      and "masterWalletLastSaveAt w = Some (lastSaveAt walletInfo)"
  shows "(case getMasterWallet e cfg False rewindDistanceOnStart w of
            (r, w') \<Rightarrow>
              r = (Some mw, None) \<and>
              eventsSince w w' = [FirestoreGet] \<and>
              masterWallet w' = masterWallet w \<and>
              masterWalletStartedAt w' = masterWalletStartedAt w \<and>
              masterWalletLastSaveAt w' = masterWalletLastSaveAt w \<and>
              walletDoc w' = walletDoc w \<and>
              nextWalletId w' = nextWalletId w)"
  using assms
  by (simp add: getMasterWallet_def getMasterWalletInfo_def external_def restartNeeded_def
      eventsSince_def)

theorem getMasterWallet_reuses_instance_witness:
  "fst (getMasterWallet sampleEnv sampleConfig False 40 sampleWorld) = (Some sampleWallet, None) \<and>
   eventsSince sampleWorld (snd (getMasterWallet sampleEnv sampleConfig False 40 sampleWorld))
     = [FirestoreGet] \<and>
   masterWallet (snd (getMasterWallet sampleEnv sampleConfig False 40 sampleWorld))
     = Some sampleWallet \<and>
   masterWalletLastSaveAt (snd (getMasterWallet sampleEnv sampleConfig False 40 sampleWorld))
     = Some 100"
  using getMasterWallet_reuses_instance
    [where w = sampleWorld and mw = sampleWallet and walletInfo = sampleInfo
       and cfg = sampleConfig and s = 1000 and e = sampleEnv and rewindDistanceOnStart = 40]
  by (simp add: sample_defs split_beta)

text \<open>
  C2: when an instance exists and the persisted \<open>lastSaveAt\<close> differs from the recorded
  baseline, \<open>getMasterWallet\<close> takes the restart path whatever the other tests say: it
  fetches the blob. When the fetch gives a non-empty string that decrypts, it opens a new
  wallet bound to the configured peer, installs it as the singleton, stops the old
  instance, returns the new one and records the persisted \<open>lastSaveAt\<close> as the new
  baseline.
\<close>

theorem getMasterWallet_restarts_on_newer_save:
  assumes "masterWallet w = Some old"
      and "walletDoc w = Some walletInfo"
      and "masterWalletLastSaveAt w \<noteq> Some (lastSaveAt walletInfo)"
  shows "(case getMasterWallet e cfg forceRestart rewindDistanceOnStart w of
            (r, w') \<Rightarrow>
              BucketDownload (location walletInfo) \<in> set (eventsSince w w') \<and>
              (\<forall>blob. blobDownload e = Some blob \<and> blob \<noteq> [] \<and> decrypts e blob \<longrightarrow>
                 r = (Some \<lparr>walletId = nextWalletId w, connHost = daemonHost cfg,
                             connPort = daemonPort cfg\<rparr>, None) \<and>
                 masterWallet w' = fst r \<and>
                 masterWalletLastSaveAt w' = Some (lastSaveAt walletInfo) \<and>
                 OpenWallet (nextWalletId w) (daemonHost cfg) (daemonPort cfg)
                   \<in> set (eventsSince w w') \<and>
                 AssignMasterWallet (Some (nextWalletId w)) \<in> set (eventsSince w w') \<and>
                 StopWallet (walletId old) \<in> set (eventsSince w w')))"
  using assms
  by (auto simp add: registry_defs eventsSince_def split: option.splits prod.splits)

theorem getMasterWallet_restarts_on_newer_save_witness:
  "fst (getMasterWallet sampleEnv sampleConfig False 40
          (sampleWorld\<lparr>walletDoc := Some (sampleInfo\<lparr>lastSaveAt := 200\<rparr>)\<rparr>))
     = (Some \<lparr>walletId = 1, connHost = ''node-a'', connPort = 11898\<rparr>, None) \<and>
   masterWalletLastSaveAt (snd (getMasterWallet sampleEnv sampleConfig False 40
          (sampleWorld\<lparr>walletDoc := Some (sampleInfo\<lparr>lastSaveAt := 200\<rparr>)\<rparr>)))
     = Some 200 \<and>
   StopWallet 0 \<in> set (eventsSince
          (sampleWorld\<lparr>walletDoc := Some (sampleInfo\<lparr>lastSaveAt := 200\<rparr>)\<rparr>)
          (snd (getMasterWallet sampleEnv sampleConfig False 40
                 (sampleWorld\<lparr>walletDoc := Some (sampleInfo\<lparr>lastSaveAt := 200\<rparr>)\<rparr>))))"
  using getMasterWallet_restarts_on_newer_save
    [where w = "sampleWorld\<lparr>walletDoc := Some (sampleInfo\<lparr>lastSaveAt := 200\<rparr>)\<rparr>"
       and old = sampleWallet and walletInfo = "sampleInfo\<lparr>lastSaveAt := 200\<rparr>"
       and cfg = sampleConfig and e = sampleEnv and forceRestart = False
       and rewindDistanceOnStart = 40]
  by (simp add: sample_defs split_beta)

text \<open>
  C3: on every path of \<open>getMasterWallet\<close> that starts with an instance, the singleton is
  never empty, the old instance is stopped at most once, it is neither stopped nor stripped
  of its listeners before the new instance has been assigned to the singleton, and its
  listeners are not removed before it has been stopped. On a restart path that gets its blob and decrypts it, whether the
  restart comes from a differing peer, from the age, from a newer save or from
  \<open>forceRestart\<close>, the old instance is stopped exactly once, its listeners are removed
  exactly once, and the new instance is the singleton.
\<close>

theorem getMasterWallet_swap_order:
  assumes "masterWallet w = Some old"
      and "walletDoc w = Some walletInfo"
  shows "(case getMasterWallet e cfg forceRestart rewindDistanceOnStart w of
            (r, w') \<Rightarrow>
              None \<notin> set (masterHistory (Some (walletId old)) (eventsSince w w')) \<and>
              onlyAfter (AssignMasterWallet (Some (nextWalletId w))) (StopWallet (walletId old))
                (eventsSince w w') \<and>
              onlyAfter (AssignMasterWallet (Some (nextWalletId w)))
                (RemoveAllListeners (walletId old)) (eventsSince w w') \<and>
              onlyAfter (StopWallet (walletId old)) (RemoveAllListeners (walletId old))
                (eventsSince w w') \<and>
              count_list (eventsSince w w') (StopWallet (walletId old)) \<le> 1 \<and>
              ((restartNeeded cfg walletInfo old (external e FirestoreGet w) \<or> forceRestart) \<and>
               (\<exists>blob. blobDownload e = Some blob \<and> blob \<noteq> [] \<and> decrypts e blob) \<longrightarrow>
                 count_list (eventsSince w w') (StopWallet (walletId old)) = 1 \<and>
                 count_list (eventsSince w w') (RemoveAllListeners (walletId old)) = 1 \<and>
                 masterWallet w' = Some \<lparr>walletId = nextWalletId w, connHost = daemonHost cfg,
                                         connPort = daemonPort cfg\<rparr>))"
  using assms
  by (simp add: registry_defs eventsSince_def onlyAfter_def masterAfter_def
      split: option.splits prod.splits)

theorem getMasterWallet_swap_order_witness:
  "eventsSince sampleWorld
     (snd (getMasterWallet sampleEnv (sampleConfig\<lparr>daemonHost := ''node-b''\<rparr>) False 40 sampleWorld))
     = [FirestoreGet, FirestoreGet, BucketDownload ''wallets/master.bin'',
        OpenWallet 1 ''node-b'' 11898, StartWallet 1, RewindWallet 1 50,
        AssignMasterWallet (Some 1), StopWallet 0, RemoveAllListeners 0] \<and>
   count_list (eventsSince sampleWorld
     (snd (getMasterWallet sampleEnv (sampleConfig\<lparr>daemonHost := ''node-b''\<rparr>) False 40 sampleWorld)))
     (StopWallet 0) = 1 \<and>
   masterWallet
     (snd (getMasterWallet sampleEnv (sampleConfig\<lparr>daemonHost := ''node-b''\<rparr>) False 40 sampleWorld))
     = Some \<lparr>walletId = 1, connHost = ''node-b'', connPort = 11898\<rparr>"
proof -
  have run: "eventsSince sampleWorld
     (snd (getMasterWallet sampleEnv (sampleConfig\<lparr>daemonHost := ''node-b''\<rparr>) False 40 sampleWorld))
     = [FirestoreGet, FirestoreGet, BucketDownload ''wallets/master.bin'',
        OpenWallet 1 ''node-b'' 11898, StartWallet 1, RewindWallet 1 50,
        AssignMasterWallet (Some 1), StopWallet 0, RemoveAllListeners 0]"
    by (simp add: registry_defs eventsSince_def sample_defs)
  show ?thesis
    using run getMasterWallet_swap_order
      [where w = sampleWorld and old = sampleWallet and walletInfo = sampleInfo
         and cfg = "sampleConfig\<lparr>daemonHost := ''node-b''\<rparr>" and e = sampleEnv
         and forceRestart = False and rewindDistanceOnStart = 40]
    by (simp add: sample_defs split_beta restartNeeded_def external_def)
qed

subsection \<open>The sync wait\<close>

text \<open>
  C4: when the height delta read at the start of the wait is at most 2,
  \<open>waitForWalletSync\<close> returns true and the world is untouched: no listener is registered,
  no timer is started, no node is dropped and no time passes.
\<close>

theorem waitForWalletSync_fast_path:
  assumes "heightDelta (getWalletSyncInfo e wl w) \<le> 2"
  shows "waitForWalletSync e wl timeout w = (True, w)"
  using assms by (simp add: waitForWalletSync_def)

theorem waitForWalletSync_fast_path_witness:
  "waitForWalletSync (sampleEnv\<lparr>syncStatus := (\<lambda>i t. (98, 98, 100))\<rparr>) sampleWallet 5000 sampleWorld
     = (True, sampleWorld)"
  using waitForWalletSync_fast_path
    [where e = "sampleEnv\<lparr>syncStatus := (\<lambda>i t. (98, 98, 100))\<rparr>" and wl = sampleWallet
       and w = sampleWorld and timeout = 5000]
  by (simp add: getWalletSyncInfo_def sample_defs)

text \<open>
  C5: take a wait that does not return at once. When no \<open>sync\<close> event settles the race,
  the result is true exactly when the height delta read after the timeout is at most 2,
  and \<open>dropCurrentNode\<close> is called exactly when the result is false and fewer than 2 blocks
  were processed during the wait. When the listener settles the race before the timer
  fires, the result is true and the call has registered the listener and started the
  timer and nothing else: the branch of the event drops no node.
\<close>

theorem waitForWalletSync_timeout_branch:
  assumes "\<not> heightDelta (getWalletSyncInfo e wl w) \<le> 2"
  shows "(case waitForWalletSync e wl timeout w of
            (r, w') \<Rightarrow>
              (syncEmission e = NotInTime \<longrightarrow>
                 r = (heightDelta (getWalletSyncInfo e wl (elapse timeout w)) \<le> 2) \<and>
                 ((\<exists>h. DropCurrentNode h \<in> set (eventsSince w w')) \<longleftrightarrow>
                    \<not> r \<and> walletHeight (getWalletSyncInfo e wl (elapse timeout w))
                             - walletHeight (getWalletSyncInfo e wl w) < 2) \<and>
                 (DropCurrentNode (connHost wl) \<in> set (eventsSince w w') \<longleftrightarrow>
                    \<not> r \<and> walletHeight (getWalletSyncInfo e wl (elapse timeout w))
                             - walletHeight (getWalletSyncInfo e wl w) < 2)) \<and>
              (\<forall>d. syncEmission e = BeforeTimer d \<longrightarrow>
                 r \<and> eventsSince w w' = [OnSync (walletId wl), SetTimeout timeout]))"
  using assms
  by (auto simp add: wait_defs eventsSince_def split: syncEmission.splits prod.splits)

theorem waitForWalletSync_timeout_branch_witness:
  "\<not> fst (waitForWalletSync sampleEnv sampleWallet 5000 sampleWorld) \<and>
   DropCurrentNode ''node-a''
     \<in> set (eventsSince sampleWorld (snd (waitForWalletSync sampleEnv sampleWallet 5000 sampleWorld))) \<and>
   fst (waitForWalletSync (sampleEnv\<lparr>syncEmission := BeforeTimer 700\<rparr>) sampleWallet 5000 sampleWorld) \<and>
   eventsSince sampleWorld
     (snd (waitForWalletSync (sampleEnv\<lparr>syncEmission := BeforeTimer 700\<rparr>) sampleWallet 5000 sampleWorld))
     = [OnSync 0, SetTimeout 5000]"
  using waitForWalletSync_timeout_branch
      [where e = sampleEnv and wl = sampleWallet and w = sampleWorld and timeout = 5000]
    waitForWalletSync_timeout_branch
      [where e = "sampleEnv\<lparr>syncEmission := BeforeTimer 700\<rparr>" and wl = sampleWallet
         and w = sampleWorld and timeout = 5000]
  by (simp add: getWalletSyncInfo_def elapse_def sample_defs split_beta)

text \<open>
  The remaining schedule: the timer fires, its callback calls \<open>dropCurrentNode\<close>, and the
  wallet emits \<open>sync\<close> while that call is awaited. The result is true, and the node has been
  dropped by the callback of the timer.
\<close>

lemma waitForWalletSync_overtaken:
  assumes "\<not> heightDelta (getWalletSyncInfo e wl w) \<le> 2"
      and "syncEmission e = DuringDrop"
      and "\<not> heightDelta (getWalletSyncInfo e wl (elapse timeout w)) \<le> 2"
      and "walletHeight (getWalletSyncInfo e wl (elapse timeout w))
             - walletHeight (getWalletSyncInfo e wl w) < 2"
  shows "fst (waitForWalletSync e wl timeout w) \<and>
         eventsSince w (snd (waitForWalletSync e wl timeout w))
           = [OnSync (walletId wl), SetTimeout timeout, TimerFired, DropCurrentNode (connHost wl)]"
  using assms by (simp add: wait_defs eventsSince_def)

subsection \<open>The service wallet\<close>

lemma getMasterWallet_returns_singleton:
  "getMasterWallet e cfg forceRestart rd w = ((Some wl, oe), w2) \<Longrightarrow> masterWallet w2 = Some wl"
  by (auto simp add: registry_defs split: option.splits prod.splits if_splits)

lemma waitForWalletSync_masterWallet:
  "masterWallet (snd (waitForWalletSync e wl timeout w)) = masterWallet w"
  by (auto simp add: wait_defs split: syncEmission.splits prod.splits)

lemma getMasterWallet_no_instance:
  assumes "masterWallet w = None"
  shows "(case getMasterWallet e cfg forceRestart rd w of
            (r, w') \<Rightarrow>
              (\<forall>i. StopWallet i \<notin> set (eventsSince w w')) \<and>
              (\<forall>info. walletDoc w = Some info \<longrightarrow>
                 BucketDownload (location info) \<in> set (eventsSince w w')))"
  using assms
  by (auto simp add: registry_defs eventsSince_def split: option.splits prod.splits)

text \<open>
  C8: when \<open>getServiceWallet\<close> is called with \<open>waitForSync\<close>, the configuration is there and
  does not halt the service, \<open>getMasterWallet\<close> returns a wallet and the wait for it returns
  false, the wallet is the singleton; it is stopped, its listeners are removed and the
  singleton is cleared, in this order, and the call returns the error
  \<open>service/master-wallet-sync-failed\<close> with no handle. The next \<open>getMasterWallet\<close> then
  starts without an instance: whatever its arguments, it stops no wallet and it fetches
  the blob when the metadata is there.
\<close>

theorem getServiceWallet_sync_failure_discards:
  assumes "serviceConfigResult e = (Some cfg, ce)"
      and "\<not> serviceHalted cfg"
      and "getMasterWallet e cfg False 40 (external e GetServiceConfig w) = ((Some wl, oe), w2)"
      and "waitForWalletSync e wl (waitForSyncTimeout cfg) w2 = (False, w3)"
  shows "(case getServiceWallet e True w of
            (r, w') \<Rightarrow>
              r = (None, Some (ServiceError ''service/master-wallet-sync-failed'' None)) \<and>
              masterWallet w3 = Some wl \<and>
              masterWallet w' = None \<and>
              eventsSince w3 w' = [StopWallet (walletId wl), RemoveAllListeners (walletId wl),
                                   AssignMasterWallet None] \<and>
              (\<forall>e2 cfg2 fr rd i.
                 StopWallet i \<notin> set (eventsSince w' (snd (getMasterWallet e2 cfg2 fr rd w')))) \<and>
              (\<forall>e2 cfg2 fr rd info. walletDoc w' = Some info \<longrightarrow>
                 BucketDownload (location info)
                   \<in> set (eventsSince w' (snd (getMasterWallet e2 cfg2 fr rd w')))))"
proof -
  have m2: "masterWallet w2 = Some wl"
    using assms(3) by (rule getMasterWallet_returns_singleton)
  have m3: "masterWallet w3 = Some wl"
    using waitForWalletSync_masterWallet [of e wl "waitForSyncTimeout cfg" w2] assms(4) m2
    by simp
  define w' where "w' = setMasterWallet None (removeAllListeners wl (stopWallet e wl w3))"
  have run: "getServiceWallet e True w =
               ((None, Some (ServiceError ''service/master-wallet-sync-failed'' None)), w')"
    using assms m3 by (simp add: getServiceWallet_def getServiceConfig_def w'_def)
  have none: "masterWallet w' = None"
    by (simp add: w'_def setMasterWallet_def)
  have evs: "eventsSince w3 w' = [StopWallet (walletId wl), RemoveAllListeners (walletId wl),
                                  AssignMasterWallet None]"
    by (simp add: w'_def eventsSince_def setMasterWallet_def removeAllListeners_def
        stopWallet_def external_def logEvent_def)
  have nxt: "\<And>e2 cfg2 fr rd. case getMasterWallet e2 cfg2 fr rd w' of
            (r, w'') \<Rightarrow>
              (\<forall>i. StopWallet i \<notin> set (eventsSince w' w'')) \<and>
              (\<forall>info. walletDoc w' = Some info \<longrightarrow>
                 BucketDownload (location info) \<in> set (eventsSince w' w''))"
    using none by (rule getMasterWallet_no_instance)
  show ?thesis
    using run m3 none evs nxt by (simp add: split_beta)
qed

theorem getServiceWallet_sync_failure_discards_witness:
  "fst (getServiceWallet sampleEnv True sampleWorld)
     = (None, Some (ServiceError ''service/master-wallet-sync-failed'' None)) \<and>
   masterWallet (snd (getServiceWallet sampleEnv True sampleWorld)) = None \<and>
   drop 6 (trace (snd (getServiceWallet sampleEnv True sampleWorld)))
     = [StopWallet 0, RemoveAllListeners 0, AssignMasterWallet None]"
proof -
  define w1 where "w1 = external sampleEnv GetServiceConfig sampleWorld"
  define w2 where "w2 = snd (getMasterWallet sampleEnv sampleConfig False 40 w1)"
  define w3 where "w3 = snd (waitForWalletSync sampleEnv sampleWallet 5000 w2)"
  have a: "getMasterWallet sampleEnv sampleConfig False 40 w1 = ((Some sampleWallet, None), w2)"
    by (simp add: w2_def w1_def registry_defs sample_defs)
  have b: "waitForWalletSync sampleEnv sampleWallet (waitForSyncTimeout sampleConfig) w2 = (False, w3)"
    by (simp add: w3_def w2_def w1_def registry_defs wait_defs sample_defs)
  have t3: "trace w3 = [GetServiceConfig, FirestoreGet, OnSync 0, SetTimeout 5000, TimerFired,
                        DropCurrentNode ''node-a'']"
    by (simp add: w3_def w2_def w1_def registry_defs wait_defs sample_defs)
  have c: "serviceConfigResult sampleEnv = (Some sampleConfig, None)"
    by (simp add: sampleEnv_def)
  have d: "\<not> serviceHalted sampleConfig"
    by (simp add: sampleConfig_def)
  have e: "trace sampleWorld = []" "walletId sampleWallet = 0"
    by (simp_all add: sample_defs)
  show ?thesis
    using getServiceWallet_sync_failure_discards [OF c d a [unfolded w1_def] b] t3 e
    by (simp add: split_beta eventsSince_def numeral_eq_Suc)
qed

subsection \<open>Persistence\<close>

text \<open>
  C6: when the metadata record is there, \<open>saveMasterWallet\<close> attempts the primary write and
  starts the mirror write, each whatever the outcome of the other; the mirror write reaches
  the remote storage exactly when its credential could be fetched and staged. The result
  is the timestamp with no error whatever the outcome of the mirror write, and
  \<open>lastSaveAt\<close> is updated exactly when the primary write succeeded.
\<close>

theorem saveMasterWallet_both_writes:
  assumes "walletDoc w = Some info"
  shows "(case saveMasterWallet e wl w of
            (r, w') \<Rightarrow>
              BucketSave (location info) (encryptWalletToString e (walletId wl))
                \<in> set (eventsSince w w') \<and>
              BucketDownload (gcpServiceAccountFilename e) \<in> set (eventsSince w w') \<and>
              (MirrorSave (gcpWalletFilename e) (encryptWalletToString e (walletId wl))
                 \<in> set (eventsSince w w') \<longleftrightarrow> keyFileDownload e \<noteq> None \<and> keyFileWriteOk e) \<and>
              r = (Some (clock w + int (latency e FirestoreGet)), None) \<and>
              ((\<exists>t. FirestoreUpdateLastSaveAt t \<in> set (eventsSince w w'))
                 \<longleftrightarrow> primarySaveOk e) \<and>
              (primarySaveOk e \<longrightarrow>
                 (\<exists>t. walletDoc w' = Some (info\<lparr>lastSaveAt := t\<rparr>) \<and>
                      FirestoreUpdateLastSaveAt t \<in> set (eventsSince w w'))) \<and>
              (\<not> primarySaveOk e \<longrightarrow> walletDoc w' = Some info))"
  using assms
  by (auto simp add: save_defs eventsSince_def split: option.splits prod.splits)

theorem saveMasterWallet_both_writes_witness:
  "fst (saveMasterWallet (sampleEnv\<lparr>mirrorSaveOk := False\<rparr>) sampleWallet sampleWorld)
     = (Some 301005, None) \<and>
   eventsSince sampleWorld
     (snd (saveMasterWallet (sampleEnv\<lparr>mirrorSaveOk := False\<rparr>) sampleWallet sampleWorld))
     = [FirestoreGet, BucketSave ''wallets/master.bin'' ''blob'', BucketDownload ''key.json'',
        WriteKeyFile ''key'', MirrorSave ''wallet.bin'' ''blob'', FirestoreUpdateLastSaveAt 301020] \<and>
   walletDoc (snd (saveMasterWallet (sampleEnv\<lparr>mirrorSaveOk := False\<rparr>) sampleWallet sampleWorld))
     = Some (sampleInfo\<lparr>lastSaveAt := 301020\<rparr>)"
proof -
  have run: "eventsSince sampleWorld
     (snd (saveMasterWallet (sampleEnv\<lparr>mirrorSaveOk := False\<rparr>) sampleWallet sampleWorld))
     = [FirestoreGet, BucketSave ''wallets/master.bin'' ''blob'', BucketDownload ''key.json'',
        WriteKeyFile ''key'', MirrorSave ''wallet.bin'' ''blob'', FirestoreUpdateLastSaveAt 301020]"
    by (simp add: save_defs eventsSince_def sample_defs)
  show ?thesis
    using run saveMasterWallet_both_writes
      [where w = sampleWorld and info = sampleInfo and wl = sampleWallet
         and e = "sampleEnv\<lparr>mirrorSaveOk := False\<rparr>"]
    by (auto simp add: sample_defs split_beta)
qed

text \<open>
  C10: \<open>saveMasterWallet\<close> returns an error exactly when the metadata record is absent, and
  the error is then \<open>service/master-wallet-info\<close>. When the record is there the result is
  the timestamp with no error whatever the two writes do; a failed primary write shows
  only in that the record, and with it \<open>lastSaveAt\<close>, is left as it was.
\<close>

theorem saveMasterWallet_never_reports_write_failure:
  "(case saveMasterWallet e wl w of
      (r, w') \<Rightarrow>
        (walletDoc w \<noteq> None \<longrightarrow> r = (Some (clock w + int (latency e FirestoreGet)), None)) \<and>
        (snd r \<noteq> None \<longleftrightarrow> walletDoc w = None) \<and>
        (walletDoc w = None \<longrightarrow>
           r = (None, Some (ServiceError ''service/master-wallet-info'' None))) \<and>
        (\<not> primarySaveOk e \<longrightarrow>
           walletDoc w' = walletDoc w \<and>
           (\<forall>t. FirestoreUpdateLastSaveAt t \<notin> set (eventsSince w w'))))"
proof (cases "walletDoc w")
  case None
  then have "saveMasterWallet e wl w =
               ((None, Some (ServiceError ''service/master-wallet-info'' None)),
                external e FirestoreGet w)"
    by (simp add: saveMasterWallet_def getMasterWalletInfo_def)
  with None show ?thesis
    by simp
next
  case (Some info)
  then have result: "fst (saveMasterWallet e wl w)
                       = (Some (clock w + int (latency e FirestoreGet)), None)"
    by (simp add: save_defs split: prod.splits)
  have untouched: "walletDoc (snd (saveMasterWallet e wl w)) = walletDoc w"
    and no_update: "\<forall>t. FirestoreUpdateLastSaveAt t
                          \<notin> set (eventsSince w (snd (saveMasterWallet e wl w)))"
    if "\<not> primarySaveOk e"
    using that Some by (auto simp add: save_defs eventsSince_def split: option.splits)
  from Some result untouched no_update show ?thesis
    by (simp add: split_beta)
qed

theorem saveMasterWallet_never_reports_write_failure_witness:
  "fst (saveMasterWallet (sampleEnv\<lparr>primarySaveOk := False, mirrorSaveOk := False\<rparr>)
          sampleWallet sampleWorld) = (Some 301005, None) \<and>
   walletDoc (snd (saveMasterWallet (sampleEnv\<lparr>primarySaveOk := False, mirrorSaveOk := False\<rparr>)
          sampleWallet sampleWorld)) = Some sampleInfo \<and>
   fst (saveMasterWallet sampleEnv sampleWallet (sampleWorld\<lparr>walletDoc := None\<rparr>))
     = (None, Some (ServiceError ''service/master-wallet-info'' None))"
  using saveMasterWallet_never_reports_write_failure
      [where w = sampleWorld and wl = sampleWallet
         and e = "sampleEnv\<lparr>primarySaveOk := False, mirrorSaveOk := False\<rparr>"]
    saveMasterWallet_never_reports_write_failure
      [where w = "sampleWorld\<lparr>walletDoc := None\<rparr>" and wl = sampleWallet and e = sampleEnv]
  by (simp add: sample_defs split_beta)

subsection \<open>Creation\<close>

text \<open>
  C7: when the metadata record exists, \<open>createMasterWallet\<close> returns the error
  \<open>service/master-wallet-info\<close> and no seed; its only call is the refused \<open>create\<close>, and the
  record and the singleton are as they were. Whenever it returns a seed, the record was
  absent, there is no error and the seed is the mnemonic seed of the wallet; and it does
  return the seed when the record is absent, the wallet is created and started, the clock
  is past 0 and the wallet has a non-empty seed.
\<close>

theorem createMasterWallet_existing_record:
  "(case createMasterWallet e cfg w of
      (r, w') \<Rightarrow>
        (\<forall>d. walletDoc w = Some d \<longrightarrow>
           r = (None, Some (ServiceError ''service/master-wallet-info''
                              (Some (''Error creating WalletInfo: '' @ firestoreErrorText e)))) \<and>
           walletDoc w' = Some d \<and>
           masterWallet w' = masterWallet w \<and>
           eventsSince w w' =
             [FirestoreCreate \<lparr>location = defaultWalletLocation e,
                               backupsDirectory = defaultWalletBackupsDirectory e,
                               lastSaveAt = clock w, lastBackupAt = 0\<rparr>]) \<and>
        (\<forall>seed. fst r = Some seed \<longrightarrow>
           snd r = None \<and> mnemonicSeed e = Some seed \<and> walletDoc w = None) \<and>
        (\<forall>seed. walletDoc w = None \<and> createWalletError e = None \<and> startWalletError e = None \<and>
                0 < clock w \<and> mnemonicSeed e = Some seed \<and> seed \<noteq> [] \<longrightarrow>
           r = (Some seed, None)))"
  by (auto simp add: createMasterWallet_def firestoreCreate_def setMasterWallet_def elapse_def
      save_defs eventsSince_def split: option.splits prod.splits if_splits)

theorem createMasterWallet_existing_record_witness:
  "fst (createMasterWallet sampleEnv sampleConfig sampleWorld)
     = (None, Some (ServiceError ''service/master-wallet-info''
                      (Some ''Error creating WalletInfo: ALREADY_EXISTS''))) \<and>
   walletDoc (snd (createMasterWallet sampleEnv sampleConfig sampleWorld)) = Some sampleInfo \<and>
   fst (createMasterWallet sampleEnv sampleConfig
          (sampleWorld\<lparr>masterWallet := None, walletDoc := None\<rparr>)) = (Some ''seed words'', None)"
  using createMasterWallet_existing_record
      [where w = sampleWorld and cfg = sampleConfig and e = sampleEnv]
    createMasterWallet_existing_record
      [where w = "sampleWorld\<lparr>masterWallet := None, walletDoc := None\<rparr>"
         and cfg = sampleConfig and e = sampleEnv]
  by (simp add: sample_defs split_beta)

subsection \<open>The remote wallet\<close>

text \<open>
  C9, as the code has it: \<open>warmupAppEngineWallet\<close> issues the start call exactly when the
  fetched status shows the remote wallet unstarted, or started with a daemon host that is
  not the configured one, or started with an uptime above four hours; the port is not
  compared. When it issues no start call it returns true, and its only call is the fetch
  of the status. When the fetch of the status fails it returns false and issues no start
  call.
\<close>

theorem warmupAppEngineWallet_start_decision:
  "(case warmupAppEngineWallet e jwtToken cfg w of
      (ready, w') \<Rightarrow>
        (statusResponse e = None \<longrightarrow>
           \<not> ready \<and> \<not> startIssued w w' \<and> eventsSince w w' = [HttpGetStatus jwtToken]) \<and>
        (\<forall>status. statusResponse e = Some status \<longrightarrow>
           (startIssued w w' \<longleftrightarrow>
              \<not> started status \<or>
              statusDaemonHost status \<noteq> Some (daemonHost cfg) \<or>
              (\<exists>u. uptime status = Some u \<and> u > 1000 * 60 * 60 * 4)) \<and>
           (startIssued w w' \<longrightarrow>
              eventsSince w w' = [HttpGetStatus jwtToken,
                                  HttpPostStart jwtToken (daemonHost cfg) (daemonPort cfg)]) \<and>
           (\<not> startIssued w w' \<longrightarrow>
              ready \<and> eventsSince w w' = [HttpGetStatus jwtToken])))"
  by (auto simp add: warmup_defs startIssued_def isStartCall_def eventsSince_def
      split: option.splits prod.splits if_splits)

theorem warmupAppEngineWallet_start_decision_witness:
  "startIssued sampleWorld
     (snd (warmupAppEngineWallet sampleEnv ''token'' (sampleConfig\<lparr>daemonHost := ''node-b''\<rparr>)
             sampleWorld)) \<and>
   eventsSince sampleWorld
     (snd (warmupAppEngineWallet sampleEnv ''token'' (sampleConfig\<lparr>daemonHost := ''node-b''\<rparr>)
             sampleWorld))
     = [HttpGetStatus ''token'', HttpPostStart ''token'' ''node-b'' 11898] \<and>
   fst (warmupAppEngineWallet sampleEnv ''token'' sampleConfig sampleWorld) \<and>
   eventsSince sampleWorld (snd (warmupAppEngineWallet sampleEnv ''token'' sampleConfig sampleWorld))
     = [HttpGetStatus ''token'']"
  using warmupAppEngineWallet_start_decision
      [where w = sampleWorld and jwtToken = "''token''" and e = sampleEnv
         and cfg = "sampleConfig\<lparr>daemonHost := ''node-b''\<rparr>"]
    warmupAppEngineWallet_start_decision
      [where w = sampleWorld and jwtToken = "''token''" and e = sampleEnv and cfg = sampleConfig]
  by (simp add: sample_defs split_beta)

text \<open>
  C9, as the specification words it, fails. The remote wallet runs on node-a, port 11898,
  for 1000 ms; the configuration names node-a, port 22000. The peer differs, so the
  specification asks for a start call; the code compares the host alone, issues none and
  reports the wallet ready.
\<close>

theorem warmupAppEngineWallet_ignores_port:
  "claimedRestartRequired 11898
     \<lparr>started = True, statusDaemonHost = Some ''node-a'', uptime = Some 1000\<rparr>
     (sampleConfig\<lparr>daemonPort := 22000\<rparr>)
   \<noteq> startIssued sampleWorld
       (snd (warmupAppEngineWallet sampleEnv ''token'' (sampleConfig\<lparr>daemonPort := 22000\<rparr>)
               sampleWorld))"
  by (simp add: claimedRestartRequired_def warmup_defs startIssued_def isStartCall_def
      eventsSince_def sample_defs)

end
